theory Spec2Isabelle
  imports Main
begin

section \<open>Ingredients: animals\<close>

text \<open>
  The source declares two object shapes and their union:
  \<^verbatim>\<open>interface Cat { type: 'cat'; meow: string }\<close>,
  \<^verbatim>\<open>interface Fish { type: 'fish' }\<close> and
  \<^verbatim>\<open>type AnyAnimal = Cat | Fish\<close>.
  The union is discriminated by the field \<open>type\<close>, so it is a datatype with one
  constructor per discriminant: \<open>cat m\<close> is the object
  \<^verbatim>\<open>{ type: 'cat', meow: m }\<close> and \<open>fish\<close> is the object \<^verbatim>\<open>{ type: 'fish' }\<close>.
\<close>

datatype AnyAnimal = cat string | fish

text \<open>
  Property reads. Every animal has the field \<open>type\<close>. Only a cat has the field
  \<open>meow\<close>; at run time, reading a property that an object lacks evaluates to
  \<^verbatim>\<open>undefined\<close>, which is \<open>None\<close> here and in all that follows.
\<close>

fun type :: "AnyAnimal \<Rightarrow> string" where
  "type (cat m) = ''cat''"
| "type fish = ''fish''"

fun meow :: "AnyAnimal \<Rightarrow> string option" where
  "meow (cat m) = Some m"
| "meow fish = None"

text \<open>
  \<^verbatim>\<open>type AnimalName = keyof AnimalRecord\<close>: the closed set of tags, the keys
  \<^verbatim>\<open>'Cat'\<close> and \<^verbatim>\<open>'Fish'\<close> of \<^verbatim>\<open>interface AnimalRecord { Cat: Cat; Fish: Fish }\<close>.
\<close>

datatype AnimalName = Cat | Fish

text \<open>
  \<open>AnimalRecord N\<close> is the shape that the interface \<^verbatim>\<open>AnimalRecord\<close> associates with
  the tag \<open>N\<close>, as a predicate on animals: the static types of the source are erased
  at run time, so they appear as predicates on the values of the union.
\<close>

fun AnimalRecord :: "AnimalName \<Rightarrow> AnyAnimal \<Rightarrow> bool" where
  "AnimalRecord Cat a = (type a = ''cat'')"
| "AnimalRecord Fish a = (type a = ''fish'')"

section \<open>The operator \<open>||\<close>\<close>

text \<open>
  \<^verbatim>\<open>a || b\<close> evaluates to \<open>a\<close> when \<open>a\<close> is truthy and to \<open>b\<close> otherwise. Both uses in
  the source have a left operand of type \<^verbatim>\<open>T | undefined\<close> where \<open>T\<close> is an object
  type (an array type, a function type). \<^verbatim>\<open>undefined\<close> is falsy; every object is
  truthy, the empty array included. The type variable \<open>'a\<close> stands for such an
  object type.
\<close>

fun truthy :: "'a option \<Rightarrow> bool" where
  "truthy None = False"
| "truthy (Some v) = True"

fun logical_or :: "'a option \<Rightarrow> 'a \<Rightarrow> 'a" where
  "logical_or None b = b"
| "logical_or (Some v) b = (if truthy (Some v) then v else b)"

section \<open>Case 1: mapping the tag to a list\<close>

text \<open>
  \<^verbatim>\<open>type AnimalList<N extends AnimalName> = AnimalRecord[N][]\<close>: an array all of whose
  elements have the shape of the tag \<open>N\<close>.
\<close>

definition AnimalList :: "AnimalName \<Rightarrow> AnyAnimal list \<Rightarrow> bool" where
  "AnimalList N xs = list_all (AnimalRecord N) xs"

text \<open>
  The registries are object literals indexed by tag. An object is a partial map from
  its keys: indexing with a key the object lacks evaluates to \<^verbatim>\<open>undefined\<close>.
  \<open>animalLists\<close> has the type \<^verbatim>\<open>Partial<AnimalLists>\<close> and holds the key \<open>Cat\<close> only;
  \<open>idealCompleteAnimalLists\<close> has the type \<^verbatim>\<open>AnimalLists\<close> and holds both keys.
\<close>

definition animalLists :: "AnimalName \<rightharpoonup> AnyAnimal list" where
  "animalLists = [Cat \<mapsto> [cat ''Did you call me?'']]"

definition idealCompleteAnimalLists :: "AnimalName \<rightharpoonup> AnyAnimal list" where
  "idealCompleteAnimalLists = [Cat \<mapsto> [cat ''Did you call me?''], Fish \<mapsto> [fish]]"

text \<open>
  \<^verbatim>\<open>const list: AnimalList<N> | undefined = animalLists[name]; return list || []\<close>
\<close>

definition getAnimalList :: "AnimalName \<Rightarrow> AnyAnimal list" where
  "getAnimalList name = (let list = animalLists name in logical_or list [])"

section \<open>Case 2: mapping the tag to a function\<close>

text \<open>
  \<^verbatim>\<open>type AnimalSoundPlayer<N extends AnimalName> = (animal: AnimalRecord[N]) => string\<close>.
  At run time a player is a function on objects. Applied to an animal of its own tag
  it yields a string; the result is optional because a player applied to an animal of
  another shape can read a missing property.
\<close>

type_synonym AnimalSoundPlayer = "AnyAnimal \<Rightarrow> string option"

text \<open>\<^verbatim>\<open>const animalSoundPlayers: Partial<AnimalSoundPlayers> = { Cat: cat => cat.meow }\<close>\<close>

definition animalSoundPlayers :: "AnimalName \<rightharpoonup> AnimalSoundPlayer" where
  "animalSoundPlayers = [Cat \<mapsto> (\<lambda>c. meow c)]"

text \<open>\<^verbatim>\<open>const defaultAnimalSoundPlayer = (animal: AnyAnimal) => 'I am an animal'\<close>\<close>

definition defaultAnimalSoundPlayer :: AnimalSoundPlayer where
  "defaultAnimalSoundPlayer = (\<lambda>animal. Some ''I am an animal'')"

text \<open>
  \<^verbatim>\<open>const player: AnimalSoundPlayer<N> | undefined = animalSoundPlayers[name];
  return player || defaultAnimalSoundPlayer\<close>
\<close>

definition getAnimalSoundPlayer :: "AnimalName \<Rightarrow> AnimalSoundPlayer" where
  "getAnimalSoundPlayer name =
     (let player = animalSoundPlayers name in logical_or player defaultAnimalSoundPlayer)"

section \<open>The getters on object references\<close>

text \<open>
  Arrays and functions are objects. A value of such a type is a reference; two
  references are equal for the operators \<^verbatim>\<open>==\<close> and \<^verbatim>\<open>===\<close> exactly when they are the
  same object; an array literal creates a new object each time it is evaluated. The
  definitions above give the contents of what the getters return. To state which
  object a call returns, what it creates and what it leaves unchanged, the getters are
  given here a second time, on references and with the state of the module passed
  through.

  The objects created so far are the list \<open>objects\<close>, and the reference \<open>r\<close> is the
  object \<open>objects ! r\<close>. A registry is an object whose properties hold references. The
  bindings are \<^verbatim>\<open>const\<close>, the properties and the arrays are not frozen.
\<close>

type_synonym ref = nat

datatype obj = Array "AnyAnimal list" | Function AnimalSoundPlayer

record module_state =
  objects :: "obj list"
  animalLists_props :: "AnimalName \<rightharpoonup> ref"
  idealCompleteAnimalLists_props :: "AnimalName \<rightharpoonup> ref"
  animalSoundPlayers_props :: "AnimalName \<rightharpoonup> ref"
  defaultAnimalSoundPlayer_ref :: ref

text \<open>
  The state once the declarations of the module have been evaluated, in source order:
  the array of \<open>animalLists\<close>, the two arrays of \<open>idealCompleteAnimalLists\<close>, the function
  of \<open>animalSoundPlayers\<close> and the function \<open>defaultAnimalSoundPlayer\<close>.
\<close>

definition module_init :: module_state where
  "module_init =
     \<lparr>objects =
        [Array [cat ''Did you call me?''],
         Array [cat ''Did you call me?''],
         Array [fish],
         Function (\<lambda>c. meow c),
         Function defaultAnimalSoundPlayer],
      animalLists_props = [Cat \<mapsto> 0],
      idealCompleteAnimalLists_props = [Cat \<mapsto> 1, Fish \<mapsto> 2],
      animalSoundPlayers_props = [Cat \<mapsto> 3],
      defaultAnimalSoundPlayer_ref = 4\<rparr>"

text \<open>Reading the contents of an array and the function behind a reference.\<close>

definition array_at :: "module_state \<Rightarrow> ref \<Rightarrow> AnyAnimal list option" where
  "array_at s r =
     (if r < length (objects s)
      then (case objects s ! r of Array xs \<Rightarrow> Some xs | Function f \<Rightarrow> None)
      else None)"

definition function_at :: "module_state \<Rightarrow> ref \<Rightarrow> AnimalSoundPlayer option" where
  "function_at s r =
     (if r < length (objects s)
      then (case objects s ! r of Array xs \<Rightarrow> None | Function f \<Rightarrow> Some f)
      else None)"

text \<open>Evaluating an array literal: a new object, at the next free reference.\<close>

definition new_array :: "AnyAnimal list \<Rightarrow> module_state \<Rightarrow> ref \<times> module_state" where
  "new_array xs s = (length (objects s), s\<lparr>objects := objects s @ [Array xs]\<rparr>)"

text \<open>
  \<^verbatim>\<open>a || b\<close> on references: a reference is truthy, and then \<open>b\<close> is not evaluated;
  \<^verbatim>\<open>undefined\<close> is falsy, and then the result is that of evaluating \<open>b\<close>.
\<close>

fun logical_or_ref ::
  "ref option \<Rightarrow> (module_state \<Rightarrow> ref \<times> module_state) \<Rightarrow> module_state \<Rightarrow> ref \<times> module_state"
  where
  "logical_or_ref None b s = b s"
| "logical_or_ref (Some r) b s = (r, s)"

text \<open>
  \<^verbatim>\<open>const list: AnimalList<N> | undefined = animalLists[name]; return list || []\<close>
\<close>

definition getAnimalList_ref :: "AnimalName \<Rightarrow> module_state \<Rightarrow> ref \<times> module_state" where
  "getAnimalList_ref name s =
     (let list = animalLists_props s name in logical_or_ref list (new_array []) s)"

text \<open>
  \<^verbatim>\<open>const player: AnimalSoundPlayer<N> | undefined = animalSoundPlayers[name];
  return player || defaultAnimalSoundPlayer\<close>
\<close>

definition getAnimalSoundPlayer_ref :: "AnimalName \<Rightarrow> module_state \<Rightarrow> ref \<times> module_state"
  where
  "getAnimalSoundPlayer_ref name s =
     (let player = animalSoundPlayers_props s name
      in logical_or_ref player (\<lambda>s'. (defaultAnimalSoundPlayer_ref s', s')) s)"

section \<open>Basic facts\<close>

lemma AnimalName_closed: "(UNIV :: AnimalName set) = {Cat, Fish}"
proof -
  have "n \<in> {Cat, Fish}" for n :: AnimalName
    by (cases n) simp_all
  then show ?thesis
    by blast
qed

lemma animalLists_Cat: "animalLists Cat = Some [cat ''Did you call me?'']"
  by (simp add: animalLists_def)

lemma animalLists_Fish: "animalLists Fish = None"
  by (simp add: animalLists_def)


lemma logical_or_Some: "logical_or (Some v) b = v"
  by simp

lemma logical_or_None: "logical_or None b = b"
  by simp

lemma idealCompleteAnimalLists_Cat:
  "idealCompleteAnimalLists Cat = Some [cat ''Did you call me?'']"
  by (simp add: idealCompleteAnimalLists_def)

lemma idealCompleteAnimalLists_Fish: "idealCompleteAnimalLists Fish = Some [fish]"
  by (simp add: idealCompleteAnimalLists_def)

lemma animalSoundPlayers_Cat: "animalSoundPlayers Cat = Some meow"
  by (simp add: animalSoundPlayers_def)

lemma animalSoundPlayers_Fish: "animalSoundPlayers Fish = None"
  by (simp add: animalSoundPlayers_def)

lemma getAnimalList_eq: "getAnimalList name = logical_or (animalLists name) []"
  by (simp add: getAnimalList_def)

lemma getAnimalSoundPlayer_eq:
  "getAnimalSoundPlayer name = logical_or (animalSoundPlayers name) defaultAnimalSoundPlayer"
  by (simp add: getAnimalSoundPlayer_def)

text \<open>
  The declared return types, as facts about the values: the list returned for a tag
  holds animals of that tag only, and the player returned for a tag yields a string on
  every animal of that tag.
\<close>

lemma getAnimalList_typed: "AnimalList name (getAnimalList name)"
  by (cases name) (simp_all add: getAnimalList_eq animalLists_Cat animalLists_Fish AnimalList_def)

lemma getAnimalSoundPlayer_typed:
  assumes "AnimalRecord name a"
  shows "\<exists>s. getAnimalSoundPlayer name a = Some s"
proof (cases name)
  case Cat
  with assms obtain m where "a = cat m"
    by (cases a) simp_all
  with Cat show ?thesis
    by (simp add: getAnimalSoundPlayer_eq animalSoundPlayers_Cat)
next
  case Fish
  then show ?thesis
    by (simp add: getAnimalSoundPlayer_eq animalSoundPlayers_Fish defaultAnimalSoundPlayer_def)
qed

section \<open>Case 1: the list getter\<close>



text \<open>
  C2. For every tag \<open>t\<close> without an entry in \<open>animalLists\<close>, \<open>getAnimalList t\<close> is the
  empty list: absence is answered by the fallback, and the getter has no error result.
  \<open>Fish\<close> is such a tag, and \<open>getAnimalList Fish = []\<close>.
\<close>

theorem getAnimalList_absent:
  "(animalLists t = None \<longrightarrow> getAnimalList t = []) \<and>
   animalLists Fish = None \<and>
   getAnimalList Fish = []"
proof -
  have general: "animalLists t = None \<longrightarrow> getAnimalList t = []"
    by (simp add: getAnimalList_eq)
  have "getAnimalList Fish = []"
    by (simp add: getAnimalList_eq animalLists_Fish)
  with general animalLists_Fish show ?thesis
    by simp
qed

theorem getAnimalList_absent_witness:
  "animalLists Fish = None \<and> getAnimalList Fish = []"
proof -
  have missing: "animalLists Fish = None"
    by (simp add: animalLists_def)
  from getAnimalList_absent [of Fish] missing show ?thesis
    by blast
qed

section \<open>Case 2: the player getter\<close>

text \<open>
  C3. For every tag \<open>t\<close> that has an entry in the registry \<open>animalSoundPlayers\<close>,
  \<open>getAnimalSoundPlayer t\<close> is the player registered for \<open>t\<close>. For \<open>Cat\<close> that player
  reads the field \<open>meow\<close>, so \<open>getAnimalSoundPlayer Cat\<close> applied to the cat whose \<open>meow\<close>
  is \<^verbatim>\<open>'hi'\<close> returns \<^verbatim>\<open>'hi'\<close>.
\<close>

theorem getAnimalSoundPlayer_present:
  "(animalSoundPlayers t = Some h \<longrightarrow> getAnimalSoundPlayer t = h) \<and>
   getAnimalSoundPlayer Cat (cat ''hi'') = Some ''hi''"
proof
  show "animalSoundPlayers t = Some h \<longrightarrow> getAnimalSoundPlayer t = h"
    by (simp add: getAnimalSoundPlayer_eq)
next
  have "getAnimalSoundPlayer Cat = meow"
    by (simp add: getAnimalSoundPlayer_eq animalSoundPlayers_Cat)
  then show "getAnimalSoundPlayer Cat (cat ''hi'') = Some ''hi''"
    by simp
qed

theorem getAnimalSoundPlayer_present_witness:
  "animalSoundPlayers Cat = Some meow \<and> getAnimalSoundPlayer Cat = meow \<and>
   getAnimalSoundPlayer Cat (cat ''hi'') = Some ''hi''"
proof -
  have registered: "animalSoundPlayers Cat = Some meow"
    by (simp add: animalSoundPlayers_def)
  from getAnimalSoundPlayer_present [of Cat meow] registered show ?thesis
    by blast
qed

text \<open>
  C4. For every tag \<open>t\<close> without an entry in \<open>animalSoundPlayers\<close>,
  \<open>getAnimalSoundPlayer t\<close> is the fallback \<open>defaultAnimalSoundPlayer\<close>. \<open>Fish\<close> is such a
  tag, so \<open>getAnimalSoundPlayer Fish\<close> applied to the fish returns
  \<^verbatim>\<open>'I am an animal'\<close>.
\<close>

theorem getAnimalSoundPlayer_absent:
  "(animalSoundPlayers t = None \<longrightarrow> getAnimalSoundPlayer t = defaultAnimalSoundPlayer) \<and>
   animalSoundPlayers Fish = None \<and>
   getAnimalSoundPlayer Fish fish = Some ''I am an animal''"
proof (intro conjI)
  show "animalSoundPlayers t = None \<longrightarrow> getAnimalSoundPlayer t = defaultAnimalSoundPlayer"
    by (simp add: getAnimalSoundPlayer_eq)
  show "animalSoundPlayers Fish = None"
    by (rule animalSoundPlayers_Fish)
  show "getAnimalSoundPlayer Fish fish = Some ''I am an animal''"
    by (simp add: getAnimalSoundPlayer_eq animalSoundPlayers_Fish defaultAnimalSoundPlayer_def)
qed

theorem getAnimalSoundPlayer_absent_witness:
  "animalSoundPlayers Fish = None \<and> getAnimalSoundPlayer Fish = defaultAnimalSoundPlayer"
proof -
  have missing: "animalSoundPlayers Fish = None"
    by (simp add: animalSoundPlayers_def)
  from getAnimalSoundPlayer_absent [of Fish] missing show ?thesis
    by blast
qed

section \<open>Both getters\<close>

text \<open>
  C5. The tag set is closed: every tag is \<open>Cat\<close> or \<open>Fish\<close>. For every tag, each getter
  returns a value: either the entry the registry stores for the tag, or, when the
  registry has no entry, the fallback. There is no third outcome: the result types of
  the getters hold neither \<^verbatim>\<open>undefined\<close> nor an error.
\<close>

theorem getters_always_return_a_value:
  "t \<in> {Cat, Fish} \<and>
   (animalLists t = Some (getAnimalList t) \<or>
      animalLists t = None \<and> getAnimalList t = []) \<and>
   (animalSoundPlayers t = Some (getAnimalSoundPlayer t) \<or>
      animalSoundPlayers t = None \<and> getAnimalSoundPlayer t = defaultAnimalSoundPlayer)"
proof (cases t)
  case Cat
  then show ?thesis
    by (simp add: getAnimalList_eq getAnimalSoundPlayer_eq animalLists_Cat animalSoundPlayers_Cat)
next
  case Fish
  then show ?thesis
    by (simp add: getAnimalList_eq getAnimalSoundPlayer_eq animalLists_Fish
        animalSoundPlayers_Fish)
qed

subsection \<open>The two levels agree\<close>

text \<open>
  In the state of the module, the registries on references hold the contents that the
  registries on values give, and each getter on references returns an object whose
  contents are what the getter on values returns.
\<close>

lemma module_init_animalLists:
  "(case animalLists_props module_init t of None \<Rightarrow> None | Some r \<Rightarrow> array_at module_init r) =
     animalLists t"
  by (cases t) (simp_all add: module_init_def array_at_def animalLists_def)

lemma module_init_animalSoundPlayers:
  "(case animalSoundPlayers_props module_init t of
      None \<Rightarrow> None | Some r \<Rightarrow> function_at module_init r) = animalSoundPlayers t"
  by (cases t) (simp_all add: module_init_def function_at_def animalSoundPlayers_def)

lemma getAnimalList_ref_contents:
  "array_at (snd (getAnimalList_ref t module_init)) (fst (getAnimalList_ref t module_init)) =
     Some (getAnimalList t)"
  by (cases t)
    (simp_all add: getAnimalList_ref_def new_array_def module_init_def array_at_def
      getAnimalList_def animalLists_def)

lemma getAnimalSoundPlayer_ref_contents:
  "function_at (snd (getAnimalSoundPlayer_ref t module_init))
     (fst (getAnimalSoundPlayer_ref t module_init)) = Some (getAnimalSoundPlayer t)"
  by (cases t)
    (simp_all add: getAnimalSoundPlayer_ref_def module_init_def function_at_def
      getAnimalSoundPlayer_def animalSoundPlayers_def)

subsection \<open>One call\<close>




subsection \<open>Two calls\<close>




section \<open>The get-or-default step\<close>

text \<open>
  C8. In the step \<^verbatim>\<open>list || []\<close> of \<open>getAnimalList\<close>, a stored list is a present value
  whatever its length. Whenever the lookup yields a stored list \<open>v\<close>, the step returns
  \<open>v\<close>, whatever the fallback operand \<open>d\<close> is; this holds for the stored empty list too,
  which is truthy. The step returns its fallback operand, for every choice of that
  operand, exactly when the entry is absent.
\<close>

theorem logical_or_stored_list:
  fixes list :: "AnyAnimal list option"
  shows "getAnimalList name = logical_or (animalLists name) [] \<and>
   (list = Some v \<longrightarrow> logical_or list d = v) \<and>
   truthy (Some ([] :: AnyAnimal list)) \<and>
   logical_or (Some ([] :: AnyAnimal list)) d = [] \<and>
   ((\<forall>b. logical_or list b = b) \<longleftrightarrow> list = None)"
proof (intro conjI)
  show "getAnimalList name = logical_or (animalLists name) []"
    by (rule getAnimalList_eq)
  show "list = Some v \<longrightarrow> logical_or list d = v"
    by simp
  show "truthy (Some ([] :: AnyAnimal list))"
    by simp
  show "logical_or (Some ([] :: AnyAnimal list)) d = []"
    by simp
  show "(\<forall>b. logical_or list b = b) \<longleftrightarrow> list = None"
  proof
    assume always_fallback: "\<forall>b. logical_or list b = b"
    show "list = None"
    proof (cases list)
      case None
      then show ?thesis .
    next
      case (Some l)
      from always_fallback have "logical_or list (fish # l) = fish # l" ..
      with Some show ?thesis
        by simp
    qed
  next
    assume "list = None"
    then show "\<forall>b. logical_or list b = b"
      by simp
  qed
qed

theorem logical_or_stored_list_witness:
  "Some ([] :: AnyAnimal list) = Some [] \<and>
   logical_or (Some ([] :: AnyAnimal list)) [fish] = [] \<and>
   logical_or (Some [cat ''Did you call me?'']) [fish] = [cat ''Did you call me?'']"
proof -
  have empty_stored: "Some ([] :: AnyAnimal list) = Some []"
    by simp
  have one_stored: "Some [cat ''Did you call me?''] = Some [cat ''Did you call me?'']"
    by simp
  from logical_or_stored_list [of Cat "Some []" "[]" "[fish]"] empty_stored
  have "logical_or (Some ([] :: AnyAnimal list)) [fish] = []"
    by blast
  moreover
  from logical_or_stored_list
    [of Cat "Some [cat ''Did you call me?'']" "[cat ''Did you call me?'']" "[fish]"] one_stored
  have "logical_or (Some [cat ''Did you call me?'']) [fish] = [cat ''Did you call me?'']"
    by blast
  ultimately show ?thesis
    by simp
qed

text \<open>
  C9. The registry \<open>idealCompleteAnimalLists\<close> has an entry for every tag. A
  get-or-default lookup in it returns the stored entry for every tag and every
  fallback operand \<open>d\<close>: the entry is truthy, so the fallback branch is not taken. A
  registry over a tag set of size one (the registry cut down to the tag \<open>t\<close>, or any
  registry \<open>R\<close> over the one-element type that stores the same entry) gives the same
  result as the full registry at that tag, namely the stored entry, whatever the two
  fallback operands \<open>d\<close> and \<open>e\<close> are.
\<close>

theorem idealCompleteAnimalLists_no_fallback:
  fixes R :: "unit \<rightharpoonup> AnyAnimal list"
  shows "dom idealCompleteAnimalLists = UNIV \<and>
   truthy (idealCompleteAnimalLists t) \<and>
   Some (logical_or (idealCompleteAnimalLists t) d) = idealCompleteAnimalLists t \<and>
   logical_or (restrict_map idealCompleteAnimalLists {t} t) d =
     logical_or (idealCompleteAnimalLists t) e \<and>
   (R () = idealCompleteAnimalLists t \<longrightarrow>
      logical_or (R ()) d = logical_or (idealCompleteAnimalLists t) e \<and>
      Some (logical_or (R ()) d) = idealCompleteAnimalLists t)"
proof -
  have populated: "\<exists>v. idealCompleteAnimalLists n = Some v" for n
    by (cases n) (simp_all add: idealCompleteAnimalLists_Cat idealCompleteAnimalLists_Fish)
  then have total: "dom idealCompleteAnimalLists = UNIV"
    by (auto simp: dom_def)
  from populated obtain v where stored: "idealCompleteAnimalLists t = Some v"
    by blast
  have cut_down: "restrict_map idealCompleteAnimalLists {t} t = idealCompleteAnimalLists t"
    by simp
  from stored have "truthy (idealCompleteAnimalLists t)"
    and "logical_or (idealCompleteAnimalLists t) d = v"
    and "logical_or (idealCompleteAnimalLists t) e = v"
    by simp_all
  with total cut_down stored show ?thesis
    by simp
qed

theorem idealCompleteAnimalLists_no_fallback_witness:
  "[() \<mapsto> [fish]] () = idealCompleteAnimalLists Fish \<and>
   logical_or ([() \<mapsto> [fish]] ()) [cat ''other''] = logical_or (idealCompleteAnimalLists Fish) [] \<and>
   Some (logical_or ([() \<mapsto> [fish]] ()) [cat ''other'']) = idealCompleteAnimalLists Fish"
proof -
  have same: "[() \<mapsto> [fish]] () = idealCompleteAnimalLists Fish"
    by (simp add: idealCompleteAnimalLists_def)
  from idealCompleteAnimalLists_no_fallback
    [of Fish "[cat ''other'']" "[]" "[() \<mapsto> [fish]]"] same
  show ?thesis
    by blast
qed

section \<open>The fallback player\<close>

text \<open>
  C10. \<open>defaultAnimalSoundPlayer\<close> is a constant function: applied to any animal, a cat
  with any \<open>meow\<close> or the fish, it returns \<^verbatim>\<open>'I am an animal'\<close>. So for a tag without a
  registered player, the player that \<open>getAnimalSoundPlayer\<close> returns gives that string
  on every animal, and the same result on any two animals.
\<close>

theorem defaultAnimalSoundPlayer_constant:
  "defaultAnimalSoundPlayer a = Some ''I am an animal'' \<and>
   (animalSoundPlayers t = None \<longrightarrow>
      getAnimalSoundPlayer t a = Some ''I am an animal'' \<and>
      getAnimalSoundPlayer t a = getAnimalSoundPlayer t b)"
proof
  show "defaultAnimalSoundPlayer a = Some ''I am an animal''"
    by (simp add: defaultAnimalSoundPlayer_def)
next
  show "animalSoundPlayers t = None \<longrightarrow>
      getAnimalSoundPlayer t a = Some ''I am an animal'' \<and>
      getAnimalSoundPlayer t a = getAnimalSoundPlayer t b"
  proof
    assume "animalSoundPlayers t = None"
    then have "getAnimalSoundPlayer t = defaultAnimalSoundPlayer"
      by (simp add: getAnimalSoundPlayer_eq)
    then show "getAnimalSoundPlayer t a = Some ''I am an animal'' \<and>
      getAnimalSoundPlayer t a = getAnimalSoundPlayer t b"
      by (simp add: defaultAnimalSoundPlayer_def)
  qed
qed

theorem defaultAnimalSoundPlayer_constant_witness:
  "animalSoundPlayers Fish = None \<and>
   getAnimalSoundPlayer Fish (cat ''purr'') = Some ''I am an animal'' \<and>
   getAnimalSoundPlayer Fish (cat ''purr'') = getAnimalSoundPlayer Fish fish"
proof -
  have missing: "animalSoundPlayers Fish = None"
    by (simp add: animalSoundPlayers_def)
  from defaultAnimalSoundPlayer_constant [of "cat ''purr''" Fish fish] missing
  show ?thesis
    by blast
qed

end
